theory Spec2Isabelle
  imports Complex_Main "HOL-Library.Monad_Syntax"
begin

section \<open>JavaScript values and exceptions\<close>

text \<open>
  The route handler of \<^verbatim>\<open>openai-completion.ts\<close> reads a parsed JSON body, and parses
  the agent's payloads with \<^verbatim>\<open>JSON.parse\<close>. A JSON value is one of the six JSON kinds;
  an object is the list of its properties in \<^verbatim>\<open>Object.keys\<close> order (each name once).
  A property that is not there reads as \<^verbatim>\<open>undefined\<close>, written \<open>None\<close>.
\<close>

datatype jsval =
    JNull
  | JBool bool
  | JNumber real
  | JString string
  | JArray "jsval list"
  | JObject "(string \<times> jsval) list"

text \<open>
  What the handler and its callbacks can throw: zod's \<^verbatim>\<open>ZodError\<close> for a body (its message
  is zod's report on that body), \<^verbatim>\<open>new Error(msg)\<close>, the \<^verbatim>\<open>SyntaxError\<close> of
  \<^verbatim>\<open>JSON.parse\<close>, and the \<^verbatim>\<open>TypeError\<close> of reading a property of \<^verbatim>\<open>null\<close> or of
  \<^verbatim>\<open>Object.keys(undefined)\<close>.
\<close>

datatype exn = ZodError jsval | Error string | SyntaxError | TypeError

datatype errmsg = ZodIssues jsval | Msg string

fun message_of :: "exn \<Rightarrow> errmsg" where
  "message_of (ZodError input) = ZodIssues input"
| "message_of (Error m) = Msg m"
| "message_of SyntaxError = Msg ''Unexpected token''"
| "message_of TypeError = Msg ''Cannot read properties''"

text \<open>
  \<^verbatim>\<open>v.k\<close> for the property names the handler reads (\<^verbatim>\<open>type\<close>, \<^verbatim>\<open>data\<close>): reading a
  property of \<^verbatim>\<open>null\<close> throws; strings, numbers, booleans and arrays have no property of
  these names.
\<close>

fun get_property :: "jsval \<Rightarrow> string \<Rightarrow> exn + jsval option" where
  "get_property JNull k = Inl TypeError"
| "get_property (JObject ps) k = Inr (map_of ps k)"
| "get_property (JBool b) k = Inr None"
| "get_property (JNumber n) k = Inr None"
| "get_property (JString s) k = Inr None"
| "get_property (JArray xs) k = Inr None"

section \<open>The request schema\<close>

datatype role = User | Assistant | System

record message =
  role :: role
  content :: string

datatype stop_value = StopList "string list" | StopString string

text \<open>A field that may be left out or be \<^verbatim>\<open>null\<close> (\<^verbatim>\<open>.optional().nullable()\<close>).\<close>

datatype 'a nullish = Undefined | Null | Defined 'a

text \<open>
  \<^verbatim>\<open>Params\<close>, the type zod infers from \<^verbatim>\<open>requestParamsSchema\<close>. A field with
  \<^verbatim>\<open>.nullable().default(d)\<close> is a value or \<^verbatim>\<open>null\<close> (\<open>None\<close>): the default replaces a
  missing field only.
\<close>

record params =
  messages :: "message list"
  model :: "string option"
  stream :: "bool option"
  temperature :: "real option"
  frequency_penalty :: "real nullish"
  max_tokens :: "real nullish"
  presence_penalty :: "real nullish"
  top_p :: "real nullish"
  stop :: "stop_value nullish"
  response_raw :: "bool option"

fun z_string :: "jsval \<Rightarrow> string option" where
  "z_string (JString s) = Some s"
| "z_string _ = None"

fun z_boolean :: "jsval \<Rightarrow> bool option" where
  "z_boolean (JBool b) = Some b"
| "z_boolean _ = None"

fun z_number :: "jsval \<Rightarrow> real option" where
  "z_number (JNumber n) = Some n"
| "z_number _ = None"

text \<open>\<^verbatim>\<open>z.enum(['user', 'assistant', 'system'])\<close>\<close>

definition z_role :: "jsval \<Rightarrow> role option" where
  "z_role v =
     (if v = JString ''user'' then Some User
      else if v = JString ''assistant'' then Some Assistant
      else if v = JString ''system'' then Some System
      else None)"

text \<open>\<^verbatim>\<open>z.enum(['perplexica'])\<close>\<close>

definition z_model :: "jsval \<Rightarrow> string option" where
  "z_model v = (if v = JString ''perplexica'' then Some ''perplexica'' else None)"

text \<open>\<^verbatim>\<open>z.union([z.array(z.string()), z.string()])\<close>\<close>

fun z_stop :: "jsval \<Rightarrow> stop_value option" where
  "z_stop (JArray xs) = map_option StopList (those (map z_string xs))"
| "z_stop (JString s) = Some (StopString s)"
| "z_stop _ = None"

text \<open>A field of a \<^verbatim>\<open>z.object\<close> with no modifier: \<^verbatim>\<open>undefined\<close> is rejected.\<close>

definition required :: "(jsval \<Rightarrow> 'a option) \<Rightarrow> jsval option \<Rightarrow> 'a option" where
  "required p v = (case v of None \<Rightarrow> None | Some x \<Rightarrow> p x)"

text \<open>\<^verbatim>\<open>.nullable().default(d)\<close> and \<^verbatim>\<open>.optional().nullable().default(d)\<close>.\<close>

definition nullable_default :: "'a \<Rightarrow> (jsval \<Rightarrow> 'a option) \<Rightarrow> jsval option \<Rightarrow> 'a option option" where
  "nullable_default d p v =
     (case v of
        None \<Rightarrow> Some (Some d)
      | Some x \<Rightarrow> if x = JNull then Some None else map_option Some (p x))"

text \<open>\<^verbatim>\<open>.optional().nullable()\<close>\<close>

definition optional_nullable :: "(jsval \<Rightarrow> 'a option) \<Rightarrow> jsval option \<Rightarrow> 'a nullish option" where
  "optional_nullable p v =
     (case v of
        None \<Rightarrow> Some Undefined
      | Some x \<Rightarrow> if x = JNull then Some Null else map_option Defined (p x))"

text \<open>
  One element of \<^verbatim>\<open>messages\<close>:
  \<^verbatim>\<open>z.object({ role: z.enum([...]), content: z.string() }).required()\<close>.
  \<^verbatim>\<open>z.string()\<close> has no \<^verbatim>\<open>.min(1)\<close>: the empty string passes.
\<close>

fun z_message :: "jsval \<Rightarrow> message option" where
  "z_message (JObject ps) =
     (case required z_role (map_of ps ''role'') of
        None \<Rightarrow> None
      | Some r \<Rightarrow>
          (case required z_string (map_of ps ''content'') of
             None \<Rightarrow> None
           | Some c \<Rightarrow> Some \<lparr>role = r, content = c\<rparr>))"
| "z_message _ = None"

text \<open>\<^verbatim>\<open>.array().nonempty()\<close> over the message schema.\<close>

fun z_messages :: "jsval \<Rightarrow> message list option" where
  "z_messages (JArray xs) =
     (case those (map z_message xs) of
        None \<Rightarrow> None
      | Some ms \<Rightarrow> if ms = [] then None else Some ms)"
| "z_messages _ = None"

text \<open>
  \<^verbatim>\<open>requestParamsSchema.parseAsync(req.body)\<close>: \<open>None\<close> where zod rejects the body with a
  \<^verbatim>\<open>ZodError\<close>. Properties the schema does not name are stripped.
\<close>

fun requestParamsSchema :: "jsval \<Rightarrow> params option" where
  "requestParamsSchema (JObject ps) =
     do {
       ms \<leftarrow> required z_messages (map_of ps ''messages'');
       mo \<leftarrow> nullable_default ''perplexica'' z_model (map_of ps ''model'');
       st \<leftarrow> nullable_default False z_boolean (map_of ps ''stream'');
       te \<leftarrow> nullable_default 1 z_number (map_of ps ''temperature'');
       fp \<leftarrow> optional_nullable z_number (map_of ps ''frequency_penalty'');
       mt \<leftarrow> optional_nullable z_number (map_of ps ''max_tokens'');
       pp \<leftarrow> optional_nullable z_number (map_of ps ''presence_penalty'');
       tp \<leftarrow> optional_nullable z_number (map_of ps ''top_p'');
       sp \<leftarrow> optional_nullable z_stop (map_of ps ''stop'');
       rr \<leftarrow> nullable_default False z_boolean (map_of ps ''response_raw'');
       Some \<lparr>messages = ms, model = mo, stream = st, temperature = te,
             frequency_penalty = fp, max_tokens = mt, presence_penalty = pp, top_p = tp,
             stop = sp, response_raw = rr\<rparr>
     }"
| "requestParamsSchema _ = None"

text \<open>
  The \<^verbatim>\<open>try\<close> block of the handler: the schema, then the check of the last message.
  The three tests are the operands of \<^verbatim>\<open>||\<close>, evaluated left to right.
\<close>

definition validate :: "jsval \<Rightarrow> exn + params" where
  "validate req_body =
     (case requestParamsSchema req_body of
        None \<Rightarrow> Inl (ZodError req_body)
      | Some json \<Rightarrow>
          if messages json = [] then
            Inl (Error ''Invalid messages, last message must be from user'')
          else if role (last (messages json)) \<noteq> User then
            Inl (Error ''Invalid messages, last message must be from user'')
          else if content (last (messages json)) = [] then
            Inl (Error ''Invalid messages, last message must be from user'')
          else Inr json)"

section \<open>The HTTP response\<close>

text \<open>
  The body of a JSON error, \<^verbatim>\<open>{ error: { type, message, param: null, code } }\<close>.
\<close>

record error_body =
  err_type :: string
  err_message :: errmsg
  err_code :: nat

text \<open>
  A completion chunk as \<^verbatim>\<open>createDelta\<close> builds it. \<^verbatim>\<open>content\<close> is declared a string,
  but \<^verbatim>\<open>parsedData.data\<close> is passed unchecked, so the field holds a JavaScript value
  (\<open>None\<close> for \<^verbatim>\<open>undefined\<close>).
\<close>

record choice =
  delta_content :: "jsval option"
  index :: nat
  finish_reason :: "string option"

record chunk =
  chunk_id :: string
  object :: string
  created :: int
  chunk_model :: "string option"
  choices :: "choice list"

text \<open>
  What is written to the response, in order: \<open>SseData c\<close> is the write of
  \<^verbatim>\<open>`data: ${JSON.stringify(c)}\n\n`\<close>, \<open>Text s\<close> the write of the literal \<open>s\<close>, and
  \<open>JsonBody e\<close> the body sent by \<^verbatim>\<open>res.json\<close>.
\<close>

datatype wire = SseData chunk | Text string | JsonBody error_body

text \<open>
  The response object: the status set by \<^verbatim>\<open>res.status\<close> (\<open>None\<close> until it is called), the
  headers set by \<^verbatim>\<open>res.setHeader\<close>, the writes, and whether the response was ended.
\<close>

record response =
  statusCode :: "nat option"
  headers :: "(string \<times> string) list"
  body :: "wire list"
  ended :: bool

definition new_response :: response where
  "new_response = \<lparr>statusCode = None, headers = [], body = [], ended = False\<rparr>"

definition setHeader :: "string \<Rightarrow> string \<Rightarrow> response \<Rightarrow> response" where
  "setHeader k v r = r\<lparr>headers := filter (\<lambda>h. fst h \<noteq> k) (headers r) @ [(k, v)]\<rparr>"

definition res_write :: "wire \<Rightarrow> response \<Rightarrow> response" where
  "res_write w r = r\<lparr>body := body r @ [w]\<rparr>"

text \<open>
  \<^verbatim>\<open>res.status(code).json({ error: { type, message, param: null, code } })\<close>: the status
  is set, the object is sent as the body and the response is ended. (The content type
  Express gives a JSON body is not among the headers recorded here.)
\<close>

definition throwError :: "response \<Rightarrow> nat \<Rightarrow> string \<Rightarrow> errmsg \<Rightarrow> response" where
  "throwError r code type msg =
     r\<lparr>statusCode := Some code,
       body := body r @ [JsonBody \<lparr>err_type = type, err_message = msg, err_code = code\<rparr>],
       ended := True\<rparr>"

section \<open>The stream bridge\<close>

text \<open>The variables the callbacks close over and change: \<^verbatim>\<open>started\<close> and \<^verbatim>\<open>res\<close>.\<close>

record exchange =
  started :: bool
  res :: response

definition startStreamIfNeed :: "exchange \<Rightarrow> exchange" where
  "startStreamIfNeed x =
     (if \<not> started x then
        x\<lparr>started := True,
          res := setHeader ''Connection'' ''keep-alive''
                  (setHeader ''Cache-Control'' ''no-cache''
                    (setHeader ''Content-Type'' ''text/event-stream''
                      ((res x)\<lparr>statusCode := Some 200\<rparr>)))\<rparr>
      else x)"

text \<open>
  \<^verbatim>\<open>createDelta(content, finish_reason = null)\<close>, with the request's \<^verbatim>\<open>id\<close> (here \<open>uid\<close>) and
  \<^verbatim>\<open>model\<close> and the reading \<open>now\<close> of \<^verbatim>\<open>Date.now()\<close> in milliseconds.
\<close>

definition createDelta :: "string \<Rightarrow> string option \<Rightarrow> int \<Rightarrow> jsval option \<Rightarrow> string option \<Rightarrow> chunk" where
  "createDelta uid mo now c fr =
     \<lparr>chunk_id = uid, object = ''chat.completion.chunk'', created = now div 1000,
      chunk_model = mo,
      choices = [\<lparr>delta_content = c, index = 0, finish_reason = fr\<rparr>]\<rparr>"

definition writeDelta :: "string \<Rightarrow> string option \<Rightarrow> int \<Rightarrow> jsval option \<Rightarrow> string option \<Rightarrow> exchange \<Rightarrow> exchange" where
  "writeDelta uid mo now c fr x =
     (let x' = startStreamIfNeed x
      in x'\<lparr>res := res_write (SseData (createDelta uid mo now c fr)) (res x')\<rparr>)"

text \<open>
  \<^verbatim>\<open>handler.on('data', ...)\<close>. \<open>parse\<close> is \<^verbatim>\<open>JSON.parse\<close>: \<open>None\<close> where it throws a
  \<^verbatim>\<open>SyntaxError\<close>. \<^verbatim>\<open>response_raw\<close> is tested for truthiness: \<^verbatim>\<open>null\<close> counts as false.
\<close>

definition on_data ::
  "(string \<Rightarrow> jsval option) \<Rightarrow> string \<Rightarrow> string option \<Rightarrow> bool option \<Rightarrow>
   int \<Rightarrow> string \<Rightarrow> exchange \<Rightarrow> exn + exchange" where
  "on_data parse uid mo raw now data x =
     (if raw = Some True then Inr (writeDelta uid mo now (Some (JString data)) None x)
      else
        (case parse data of
           None \<Rightarrow> Inl SyntaxError
         | Some parsedData \<Rightarrow>
             (case get_property parsedData ''type'' of
                Inl e \<Rightarrow> Inl e
              | Inr t \<Rightarrow>
                  if t = Some (JString ''response'') then
                    (case get_property parsedData ''data'' of
                       Inl e \<Rightarrow> Inl e
                     | Inr d \<Rightarrow> Inr (writeDelta uid mo now d None x))
                  else Inr x)))"

definition done_marker :: string where
  "done_marker = ''data: [DONE]\<newline>\<newline>''"

text \<open>\<^verbatim>\<open>handler.on('end', ...)\<close>\<close>

definition on_end :: "string \<Rightarrow> string option \<Rightarrow> int \<Rightarrow> exchange \<Rightarrow> exchange" where
  "on_end uid mo now x =
     (let x' = writeDelta uid mo now (Some (JString [])) (Some ''stop'') x
      in x'\<lparr>res := (res_write (Text done_marker) (res x'))\<lparr>ended := True\<rparr>\<rparr>)"

text \<open>
  \<^verbatim>\<open>handler.on('error', ...)\<close>. The error \<open>err\<close> is logged and otherwise unused.
\<close>

definition on_error :: "'e \<Rightarrow> exchange \<Rightarrow> exchange" where
  "on_error err x =
     (if started x then x\<lparr>res := (res x)\<lparr>ended := True\<rparr>\<rparr>
      else x\<lparr>res := throwError (res x) 500 ''internal_server_error''
                      (Msg ''An error has occurred please try again later'')\<rparr>)"

text \<open>
  Modelled from the spec: the event source returned by \<^verbatim>\<open>handleWebSearch\<close> (the agent is
  not part of the sources). It emits data payloads in order and is terminated by the
  end signal or by an error signal. Each emission carries the clock reading at which its
  callback runs.
\<close>

datatype 'e signal = End int | Failure 'e

record 'e source =
  emitted :: "(int \<times> string) list"
  terminal :: "'e signal"

text \<open>
  What a request comes to: the response once the exchange is over, or an exception that
  left the handler (or one of its callbacks) with the response as it was then.
\<close>

datatype outcome = Completed response | Threw exn response

text \<open>The data callback over the emitted payloads; an exception stops the delivery.\<close>

fun deliver ::
  "(string \<Rightarrow> jsval option) \<Rightarrow> string \<Rightarrow> string option \<Rightarrow> bool option \<Rightarrow>
   (int \<times> string) list \<Rightarrow> exchange \<Rightarrow> (exn \<times> exchange) + exchange" where
  "deliver parse uid mo raw [] x = Inr x"
| "deliver parse uid mo raw (ev # evs) x =
     (case on_data parse uid mo raw (fst ev) (snd ev) x of
        Inl e \<Rightarrow> Inl (e, x)
      | Inr x' \<Rightarrow> deliver parse uid mo raw evs x')"

definition stream_bridge ::
  "(string \<Rightarrow> jsval option) \<Rightarrow> string \<Rightarrow> string option \<Rightarrow> bool option \<Rightarrow>
   'e source \<Rightarrow> outcome" where
  "stream_bridge parse uid mo raw src =
     (case deliver parse uid mo raw (emitted src) \<lparr>started = False, res = new_response\<rparr> of
        Inl (e, x) \<Rightarrow> Threw e (res x)
      | Inr x \<Rightarrow>
          (case terminal src of
             End now \<Rightarrow> Completed (res (on_end uid mo now x))
           | Failure err \<Rightarrow> Completed (res (on_error err x))))"

section \<open>Provider selection and the route handler\<close>

text \<open>
  A catalog maps provider names to maps from model names to model handles; it is the
  list of its entries in \<^verbatim>\<open>Object.keys\<close> order.
\<close>

type_synonym 'h catalog = "(string \<times> (string \<times> 'h) list) list"

text \<open>\<^verbatim>\<open>Object.keys(o)[0]\<close>: \<^verbatim>\<open>undefined\<close> for an object with no property.\<close>

definition first_key :: "(string \<times> 'v) list \<Rightarrow> string option" where
  "first_key entries = (case entries of [] \<Rightarrow> None | e # _ \<Rightarrow> Some (fst e))"

text \<open>\<^verbatim>\<open>o[k]\<close>: the key \<^verbatim>\<open>undefined\<close> is looked up as the property name "undefined".\<close>

definition lookup :: "(string \<times> 'v) list \<Rightarrow> string option \<Rightarrow> 'v option" where
  "lookup entries k = map_of entries (case k of None \<Rightarrow> ''undefined'' | Some s \<Rightarrow> s)"

text \<open>
  The provider and model names of one catalog, as the handler computes them:
  \<^verbatim>\<open>Object.keys(providers[provider])\<close> throws a \<^verbatim>\<open>TypeError\<close> when
  \<^verbatim>\<open>providers[provider]\<close> is \<^verbatim>\<open>undefined\<close>.
\<close>

definition first_model :: "'h catalog \<Rightarrow> exn + (string option \<times> string option)" where
  "first_model providers =
     (let provider = first_key providers
      in case lookup providers provider of
           None \<Rightarrow> Inl TypeError
         | Some models \<Rightarrow> Inr (provider, first_key models))"

text \<open>
  \<^verbatim>\<open>if (providers[provider] && providers[provider][model]) h = providers[provider][model]\<close>:
  \<open>None\<close> where the handle stays \<^verbatim>\<open>undefined\<close>. A handle in a catalog is a model
  object, which is truthy.
\<close>

definition handle_of :: "'h catalog \<Rightarrow> string option \<Rightarrow> string option \<Rightarrow> 'h option" where
  "handle_of providers provider m =
     (case lookup providers provider of
        None \<Rightarrow> None
      | Some models \<Rightarrow> lookup models m)"

datatype lc_message = HumanMessage string | AIMessage string | SystemMessage string

fun to_lc :: "message \<Rightarrow> lc_message" where
  "to_lc i =
     (case role i of
        User \<Rightarrow> HumanMessage (content i)
      | Assistant \<Rightarrow> AIMessage (content i)
      | System \<Rightarrow> SystemMessage (content i))"

text \<open>
  Lines 116 to 143 of the handler: the names are computed first, for the chat catalog and
  then for the embedding catalog (either may throw), then the two handles are read.
\<close>

definition select_models :: "'l catalog \<Rightarrow> 'm catalog \<Rightarrow> exn + ('l option \<times> 'm option)" where
  "select_models chatModelProviders embeddingModelProviders =
     (case first_model chatModelProviders of
        Inl e \<Rightarrow> Inl e
      | Inr chat \<Rightarrow>
          (case first_model embeddingModelProviders of
             Inl e \<Rightarrow> Inl e
           | Inr embedding \<Rightarrow>
               Inr (handle_of chatModelProviders (fst chat) (snd chat),
                    handle_of embeddingModelProviders (fst embedding) (snd embedding))))"

text \<open>
  \<^verbatim>\<open>router.post('/chat/completions', ...)\<close>. Its inputs: \<^verbatim>\<open>JSON.parse\<close>, the result of
  \<^verbatim>\<open>uuid.v4()\<close>, the two catalogs the provider registry returns, the agent
  \<^verbatim>\<open>handleWebSearch\<close> and the request body. Logging is left out.
\<close>

definition post_chat_completions ::
  "(string \<Rightarrow> jsval option) \<Rightarrow> string \<Rightarrow> 'l catalog \<Rightarrow> 'm catalog \<Rightarrow>
   (string \<Rightarrow> lc_message list \<Rightarrow> 'l \<Rightarrow> 'm \<Rightarrow> 'e source) \<Rightarrow> jsval \<Rightarrow> outcome" where
  "post_chat_completions parse uid chatModelProviders embeddingModelProviders handleWebSearch req_body =
     (case validate req_body of
        Inl err \<Rightarrow> Completed (throwError new_response 400 ''invalid_request_error'' (message_of err))
      | Inr json \<Rightarrow>
          (case select_models chatModelProviders embeddingModelProviders of
             Inl e \<Rightarrow> Threw e new_response
           | Inr (Some llm, Some embeddings) \<Rightarrow>
               stream_bridge parse uid (model json) (response_raw json)
                 (handleWebSearch (content (last (messages json)))
                    (map to_lc (butlast (messages json))) llm embeddings)
           | Inr _ \<Rightarrow>
               Completed (throwError new_response 500 ''internal_server_error''
                            (Msg ''Model or Embedding not found''))))"

section \<open>The forwarding rule of the design\<close>

text \<open>
  The design's rule for one agent event, to be compared with \<open>on_data\<close>: with
  \<^verbatim>\<open>response_raw\<close> the raw payload is forwarded whatever its kind; without it an event
  of kind \<^verbatim>\<open>response\<close> is forwarded with its \<^verbatim>\<open>data\<close> field as content, and every
  other event is dropped. The result lists the contents forwarded for the event;
  \<open>kind_of\<close> and \<open>data_of\<close> are the \<^verbatim>\<open>type\<close> and \<^verbatim>\<open>data\<close> of the event a payload
  stands for.
\<close>

definition kind_of :: "(string \<Rightarrow> jsval option) \<Rightarrow> string \<Rightarrow> jsval option" where
  "kind_of parse data =
     (case parse data of
        None \<Rightarrow> None
      | Some v \<Rightarrow> (case v of JObject ps \<Rightarrow> map_of ps ''type'' | _ \<Rightarrow> None))"

definition data_of :: "(string \<Rightarrow> jsval option) \<Rightarrow> string \<Rightarrow> jsval option" where
  "data_of parse data =
     (case parse data of
        None \<Rightarrow> None
      | Some v \<Rightarrow> (case v of JObject ps \<Rightarrow> map_of ps ''data'' | _ \<Rightarrow> None))"

definition forwarded :: "(string \<Rightarrow> jsval option) \<Rightarrow> bool option \<Rightarrow> string \<Rightarrow> jsval option list" where
  "forwarded parse raw data =
     (if raw = Some True then [Some (JString data)]
      else if kind_of parse data = Some (JString ''response'') then [data_of parse data]
      else [])"

definition forwarded_chunks ::
  "(string \<Rightarrow> jsval option) \<Rightarrow> string \<Rightarrow> string option \<Rightarrow> bool option \<Rightarrow>
   (int \<times> string) list \<Rightarrow> chunk list" where
  "forwarded_chunks parse uid mo raw evs =
     concat (map (\<lambda>ev. map (\<lambda>c. createDelta uid mo (fst ev) c None)
                            (forwarded parse raw (snd ev))) evs)"

text \<open>
  A payload the data callback can read without \<^verbatim>\<open>response_raw\<close>: it is a JSON document
  other than \<^verbatim>\<open>null\<close>.
\<close>

definition readable :: "(string \<Rightarrow> jsval option) \<Rightarrow> string \<Rightarrow> bool" where
  "readable parse data = (case parse data of None \<Rightarrow> False | Some v \<Rightarrow> v \<noteq> JNull)"

definition all_readable :: "(string \<Rightarrow> jsval option) \<Rightarrow> bool option \<Rightarrow> (int \<times> string) list \<Rightarrow> bool" where
  "all_readable parse raw evs = (raw = Some True \<or> list_all (\<lambda>ev. readable parse (snd ev)) evs)"



text \<open>Several chunks written one after the other, the stream started by the first.\<close>

definition append_chunks :: "chunk list \<Rightarrow> exchange \<Rightarrow> exchange" where
  "append_chunks cs x =
     (if cs = [] then x
      else (let x' = startStreamIfNeed x
            in x'\<lparr>res := (res x')\<lparr>body := body (res x') @ map SseData cs\<rparr>\<rparr>))"

definition stream_headers :: "(string \<times> string) list" where
  "stream_headers =
     [(''Content-Type'', ''text/event-stream''), (''Cache-Control'', ''no-cache''),
      (''Connection'', ''keep-alive'')]"

definition stop_chunk :: "string \<Rightarrow> string option \<Rightarrow> int \<Rightarrow> chunk" where
  "stop_chunk uid mo now = createDelta uid mo now (Some (JString [])) (Some ''stop'')"

fun response_of :: "outcome \<Rightarrow> response" where
  "response_of (Completed r) = r"
| "response_of (Threw e r) = r"


definition finished :: "chunk \<Rightarrow> bool" where
  "finished c = list_ex (\<lambda>ch. finish_reason ch \<noteq> None) (choices c)"



text \<open>
  The fields of a request body other than \<^verbatim>\<open>messages\<close> pass their schemas.
\<close>

definition other_fields :: "(string \<times> jsval) list \<Rightarrow> bool" where
  "other_fields ps =
     (nullable_default ''perplexica'' z_model (map_of ps ''model'') \<noteq> None
      \<and> nullable_default False z_boolean (map_of ps ''stream'') \<noteq> None
      \<and> nullable_default 1 z_number (map_of ps ''temperature'') \<noteq> None
      \<and> optional_nullable z_number (map_of ps ''frequency_penalty'') \<noteq> None
      \<and> optional_nullable z_number (map_of ps ''max_tokens'') \<noteq> None
      \<and> optional_nullable z_number (map_of ps ''presence_penalty'') \<noteq> None
      \<and> optional_nullable z_number (map_of ps ''top_p'') \<noteq> None
      \<and> optional_nullable z_stop (map_of ps ''stop'') \<noteq> None
      \<and> nullable_default False z_boolean (map_of ps ''response_raw'') \<noteq> None)"

text \<open>
  A response that tells the caller the request was invalid: status 400, or a JSON error of
  type \<^verbatim>\<open>invalid_request_error\<close> among the writes.
\<close>

definition rejected_as_invalid :: "response \<Rightarrow> bool" where
  "rejected_as_invalid r =
     (statusCode r = Some 400
      \<or> list_ex (\<lambda>w. case w of JsonBody e \<Rightarrow> err_type e = ''invalid_request_error'' | _ \<Rightarrow> False)
           (body r))"



section \<open>Example inputs\<close>

definition quoted :: "string \<Rightarrow> string" where
  "quoted s = CHR 0x22 # s @ [CHR 0x22]"

text \<open>The text of \<^verbatim>\<open>JSON.stringify({ type: kind, data: text })\<close> for plain words.\<close>

definition event_payload :: "string \<Rightarrow> string \<Rightarrow> string" where
  "event_payload kind text =
     ''{'' @ quoted ''type'' @ '':'' @ quoted kind @ '','' @ quoted ''data'' @ '':'' @ quoted text @ ''}''"

definition event_value :: "string \<Rightarrow> string \<Rightarrow> jsval" where
  "event_value kind text = JObject [(''type'', JString kind), (''data'', JString text)]"

text \<open>
  \<^verbatim>\<open>JSON.parse\<close> on the payloads of the examples; every other text is taken not to be JSON.
\<close>

definition example_parse :: "string \<Rightarrow> jsval option" where
  "example_parse data =
     (if data = event_payload ''response'' ''Rust ownership is...'' then
        Some (event_value ''response'' ''Rust ownership is...'')
      else if data = event_payload ''sources'' ''docs'' then
        Some (event_value ''sources'' ''docs'')
      else if data = ''null'' then Some JNull
      else None)"

definition user_message :: "string \<Rightarrow> jsval" where
  "user_message text = JObject [(''role'', JString ''user''), (''content'', JString text)]"

definition system_message :: "string \<Rightarrow> jsval" where
  "system_message text = JObject [(''role'', JString ''system''), (''content'', JString text)]"

definition assistant_message :: "string \<Rightarrow> jsval" where
  "assistant_message text = JObject [(''role'', JString ''assistant''), (''content'', JString text)]"

definition example_request :: "(string \<times> jsval) list" where
  "example_request = [(''messages'', JArray [user_message ''What is Rust ownership?''])]"

definition example_chat_catalog :: "nat catalog" where
  "example_chat_catalog = [(''openai'', [(''GPT-4'', 1), (''GPT-4 omni'', 2)])]"

definition example_embedding_catalog :: "nat catalog" where
  "example_embedding_catalog = [(''openai'', [(''Text embedding 3 small'', 3)])]"

text \<open>An agent that emits the given payloads one second apart and then the given signal.\<close>

definition example_agent ::
  "string list \<Rightarrow> string signal \<Rightarrow> string \<Rightarrow> lc_message list \<Rightarrow> nat \<Rightarrow> nat \<Rightarrow> string source" where
  "example_agent payloads sig query history llm embeddings =
     \<lparr>emitted = zip (map (\<lambda>i. 1000 * int i) [1..<Suc (length payloads)]) payloads, terminal = sig\<rparr>"

section \<open>The data callback and the forwarding rule\<close>

lemma startStreamIfNeed_idem: "startStreamIfNeed (startStreamIfNeed x) = startStreamIfNeed x"
  by (simp add: startStreamIfNeed_def)

lemma writeDelta_append: "writeDelta uid mo now c fr x = append_chunks [createDelta uid mo now c fr] x"
  by (simp add: writeDelta_def append_chunks_def res_write_def Let_def)

lemma append_chunks_append: "append_chunks cs (append_chunks ds x) = append_chunks (ds @ cs) x"
  by (simp add: append_chunks_def Let_def startStreamIfNeed_def setHeader_def)

lemma append_chunks_Nil: "append_chunks [] x = x"
  by (simp add: append_chunks_def)

lemma on_data_forwarded:
  assumes "raw = Some True \<or> readable parse data"
  shows "on_data parse uid mo raw now data x =
         Inr (append_chunks (map (\<lambda>c. createDelta uid mo now c None) (forwarded parse raw data)) x)"
proof (cases "raw = Some True")
  case True
  then show ?thesis
    by (simp add: on_data_def forwarded_def writeDelta_append)
next
  case False
  with assms obtain v where v: "parse data = Some v" "v \<noteq> JNull"
    by (auto simp: readable_def split: option.splits)
  with False show ?thesis
    by (cases v)
      (simp_all add: on_data_def forwarded_def kind_of_def data_of_def writeDelta_append
        append_chunks_Nil)
qed

lemma deliver_forwarded:
  assumes "all_readable parse raw evs"
  shows "deliver parse uid mo raw evs x = Inr (append_chunks (forwarded_chunks parse uid mo raw evs) x)"
  using assms
proof (induction evs arbitrary: x)
  case Nil
  then show ?case by (simp add: forwarded_chunks_def append_chunks_Nil)
next
  case (Cons ev evs)
  from Cons.prems have hd: "raw = Some True \<or> readable parse (snd ev)"
    and tl: "all_readable parse raw evs"
    by (auto simp: all_readable_def)
  have fc: "forwarded_chunks parse uid mo raw (ev # evs) =
            map (\<lambda>c. createDelta uid mo (fst ev) c None) (forwarded parse raw (snd ev))
            @ forwarded_chunks parse uid mo raw evs"
    by (simp add: forwarded_chunks_def)
  show ?case
    by (simp add: on_data_forwarded [OF hd] Cons.IH [OF tl] append_chunks_append fc)
qed

lemma append_chunks_fresh:
  "res (append_chunks cs \<lparr>started = False, res = new_response\<rparr>) =
     (if cs = [] then new_response
      else \<lparr>statusCode = Some 200, headers = stream_headers, body = map SseData cs, ended = False\<rparr>)"
  "started (append_chunks cs \<lparr>started = False, res = new_response\<rparr>) = (cs \<noteq> [])"
  by (simp_all add: append_chunks_def Let_def startStreamIfNeed_def setHeader_def new_response_def stream_headers_def)

lemma on_end_fresh:
  "res (on_end uid mo now (append_chunks cs \<lparr>started = False, res = new_response\<rparr>)) =
     \<lparr>statusCode = Some 200, headers = stream_headers,
      body = map SseData cs @ [SseData (stop_chunk uid mo now), Text done_marker], ended = True\<rparr>"
  by (simp add: on_end_def writeDelta_append append_chunks_append stop_chunk_def append_chunks_fresh res_write_def Let_def)

lemma on_error_fresh:
  "res (on_error err (append_chunks cs \<lparr>started = False, res = new_response\<rparr>)) =
     (if cs = [] then
        \<lparr>statusCode = Some 500, headers = [],
         body = [JsonBody \<lparr>err_type = ''internal_server_error'',
                  err_message = Msg ''An error has occurred please try again later'', err_code = 500\<rparr>],
         ended = True\<rparr>
      else \<lparr>statusCode = Some 200, headers = stream_headers, body = map SseData cs, ended = True\<rparr>)"
proof (cases "cs = []")
  case True
  then show ?thesis
    by (simp add: on_error_def append_chunks_Nil throwError_def new_response_def)
next
  case False
  then show ?thesis
    by (simp add: on_error_def append_chunks_fresh)
qed

lemma post_valid:
  assumes "validate req_body = Inr json"
    and "select_models cps eps = Inr (Some llm, Some emb)"
  shows "post_chat_completions parse uid cps eps agent req_body =
         stream_bridge parse uid (model json) (response_raw json)
           (agent (content (last (messages json))) (map to_lc (butlast (messages json))) llm emb)"
  using assms by (simp add: post_chat_completions_def)

lemma post_no_model:
  assumes "validate req_body = Inr json"
    and "select_models cps eps = Inr (l, e)" and "l = None \<or> e = None"
  shows "post_chat_completions parse uid cps eps agent req_body =
         Completed (throwError new_response 500 ''internal_server_error'' (Msg ''Model or Embedding not found''))"
  using assms by (auto simp add: post_chat_completions_def split: option.splits)


lemma stream_bridge_end:
  assumes "all_readable parse raw (emitted src)" and "terminal src = End now"
  shows "stream_bridge parse uid mo raw src =
         Completed \<lparr>statusCode = Some 200, headers = stream_headers,
           body = map SseData (forwarded_chunks parse uid mo raw (emitted src))
                  @ [SseData (stop_chunk uid mo now), Text done_marker],
           ended = True\<rparr>"
  using assms by (simp add: stream_bridge_def deliver_forwarded on_end_fresh)

lemma stream_bridge_failure:
  assumes "all_readable parse raw (emitted src)" and "terminal src = Failure err"
  shows "stream_bridge parse uid mo raw src =
         Completed
           (if forwarded_chunks parse uid mo raw (emitted src) = [] then
              \<lparr>statusCode = Some 500, headers = [],
               body = [JsonBody \<lparr>err_type = ''internal_server_error'',
                        err_message = Msg ''An error has occurred please try again later'',
                        err_code = 500\<rparr>],
               ended = True\<rparr>
            else \<lparr>statusCode = Some 200, headers = stream_headers,
                   body = map SseData (forwarded_chunks parse uid mo raw (emitted src)),
                   ended = True\<rparr>)"
  using assms by (simp add: stream_bridge_def deliver_forwarded on_error_fresh)



lemma finished_createDelta: "finished (createDelta uid mo now c fr) = (fr \<noteq> None)"
  by (simp add: finished_def createDelta_def)

lemma forwarded_chunks_unfinished: "filter finished (forwarded_chunks parse uid mo raw evs) = []"
  by (induction evs) (simp_all add: forwarded_chunks_def finished_createDelta filter_empty_conv)

lemma Text_notin_SseData: "Text s \<notin> set (map SseData cs)"
  by auto

section \<open>Normal end of the agent\<close>


subsection \<open>The example inputs evaluated\<close>

lemma example_request_valid:
  "validate (JObject example_request) =
     Inr \<lparr>messages = [\<lparr>role = User, content = ''What is Rust ownership?''\<rparr>],
          model = Some ''perplexica'', stream = Some False, temperature = Some 1,
          frequency_penalty = Undefined, max_tokens = Undefined, presence_penalty = Undefined,
          top_p = Undefined, stop = Undefined, response_raw = Some False\<rparr>"
  by (simp add: validate_def example_request_def user_message_def required_def z_role_def
      nullable_default_def optional_nullable_def)

lemma example_catalogs_select:
  "select_models example_chat_catalog example_embedding_catalog = Inr (Some 1, Some 3)"
  by (simp add: select_models_def first_model_def first_key_def lookup_def handle_of_def
      example_chat_catalog_def example_embedding_catalog_def)

lemma example_parse_response:
  "example_parse (event_payload ''response'' ''Rust ownership is...'') =
     Some (event_value ''response'' ''Rust ownership is...'')"
  by (simp add: example_parse_def)

lemma example_parse_sources:
  "example_parse (event_payload ''sources'' ''docs'') = Some (event_value ''sources'' ''docs'')"
  by (simp add: example_parse_def event_payload_def quoted_def)

lemma example_parse_html: "example_parse ''<html>'' = None"
  by (simp add: example_parse_def event_payload_def quoted_def)

lemma example_agent_emitted:
  "emitted (example_agent [p] sig q h l e) = [(1000, p)]"
  "emitted (example_agent [p, p'] sig q h l e) = [(1000, p), (2000, p')]"
  "emitted (example_agent [] sig q h l e) = []"
  "terminal (example_agent ps sig q h l e) = sig"
  by (simp_all add: example_agent_def upt_rec)


section \<open>Error and end of the agent\<close>

lemma deliver_started:
  assumes "all_readable parse raw evs"
  shows "\<exists>x. deliver parse uid mo raw evs \<lparr>started = False, res = new_response\<rparr> = Inr x
           \<and> started x = (forwarded_chunks parse uid mo raw evs \<noteq> [])
           \<and> res x = (if forwarded_chunks parse uid mo raw evs = [] then new_response
                       else \<lparr>statusCode = Some 200, headers = stream_headers,
                              body = map SseData (forwarded_chunks parse uid mo raw evs),
                              ended = False\<rparr>)"
  using assms by (simp add: deliver_forwarded append_chunks_fresh)

text \<open>
  Claim C2. When the event source signals an error: if no chunk has been written
  (\<^verbatim>\<open>started\<close> is false) the response is the JSON error with status 500, type
  \<^verbatim>\<open>internal_server_error\<close> and a fixed message in which the error does not occur; if a
  chunk has been written (\<^verbatim>\<open>started\<close> is true) the response is ended after the content
  chunks, with no stop chunk, no \<^verbatim>\<open>[DONE]\<close> line and no error object.
\<close>

theorem C2_agent_error_before_and_after_start:
  assumes "validate req_body = Inr json"
    and "select_models cps eps = Inr (Some llm, Some emb)"
    and "agent (content (last (messages json))) (map to_lc (butlast (messages json))) llm emb = src"
    and "all_readable parse (response_raw json) (emitted src)"
    and "terminal src = Failure err"
  shows "\<exists>x. deliver parse uid (model json) (response_raw json) (emitted src)
               \<lparr>started = False, res = new_response\<rparr> = Inr x
           \<and> post_chat_completions parse uid cps eps agent req_body =
               Completed
                 (if started x then
                    \<lparr>statusCode = Some 200, headers = stream_headers,
                     body = map SseData (forwarded_chunks parse uid (model json) (response_raw json) (emitted src)),
                     ended = True\<rparr>
                  else
                    \<lparr>statusCode = Some 500, headers = [],
                     body = [JsonBody \<lparr>err_type = ''internal_server_error'',
                              err_message = Msg ''An error has occurred please try again later'',
                              err_code = 500\<rparr>],
                     ended = True\<rparr>)
           \<and> started x = (forwarded_chunks parse uid (model json) (response_raw json) (emitted src) \<noteq> [])
           \<and> filter finished (forwarded_chunks parse uid (model json) (response_raw json) (emitted src)) = []"
proof -
  let ?cs = "forwarded_chunks parse uid (model json) (response_raw json) (emitted src)"
  from deliver_started [OF assms(4)]
  obtain x where x: "deliver parse uid (model json) (response_raw json) (emitted src)
               \<lparr>started = False, res = new_response\<rparr> = Inr x"
    and st: "started x = (?cs \<noteq> [])"
    by blast
  have "post_chat_completions parse uid cps eps agent req_body =
        stream_bridge parse uid (model json) (response_raw json) src"
    using assms(1-3) by (simp add: post_valid)
  with stream_bridge_failure [OF assms(4,5)]
  have "post_chat_completions parse uid cps eps agent req_body =
         Completed
           (if ?cs = [] then
              \<lparr>statusCode = Some 500, headers = [],
               body = [JsonBody \<lparr>err_type = ''internal_server_error'',
                        err_message = Msg ''An error has occurred please try again later'',
                        err_code = 500\<rparr>],
               ended = True\<rparr>
            else \<lparr>statusCode = Some 200, headers = stream_headers,
                   body = map SseData ?cs, ended = True\<rparr>)"
    by simp
  with x st show ?thesis
    by (simp add: forwarded_chunks_unfinished)
qed

lemma example_forwarded_response:
  "forwarded example_parse (Some False) (event_payload ''response'' ''Rust ownership is...'') =
     [Some (JString ''Rust ownership is...'')]"
  by (simp add: forwarded_def kind_of_def data_of_def example_parse_response event_value_def)

lemma example_forwarded_sources:
  "forwarded example_parse (Some False) (event_payload ''sources'' ''docs'') = []"
  by (simp add: forwarded_def kind_of_def data_of_def example_parse_sources event_value_def)

lemma example_readable:
  "readable example_parse (event_payload ''response'' ''Rust ownership is...'')"
  "readable example_parse (event_payload ''sources'' ''docs'')"
  by (simp_all add: readable_def example_parse_response example_parse_sources event_value_def)

theorem C2_agent_error_before_and_after_start_witness:
  "post_chat_completions example_parse ''req-2'' example_chat_catalog example_embedding_catalog
     (example_agent [event_payload ''sources'' ''docs''] (Failure ''ECONNRESET''))
     (JObject example_request) =
   Completed \<lparr>statusCode = Some 500, headers = [],
     body = [JsonBody \<lparr>err_type = ''internal_server_error'',
              err_message = Msg ''An error has occurred please try again later'',
              err_code = 500\<rparr>],
     ended = True\<rparr>
   \<and>
   post_chat_completions example_parse ''req-2'' example_chat_catalog example_embedding_catalog
     (example_agent [event_payload ''response'' ''Rust ownership is...''] (Failure ''ECONNRESET''))
     (JObject example_request) =
   Completed \<lparr>statusCode = Some 200, headers = stream_headers,
     body = [SseData (createDelta ''req-2'' (Some ''perplexica'') 1000
                        (Some (JString ''Rust ownership is...'')) None)],
     ended = True\<rparr>"
proof -
  let ?a = "example_agent [event_payload ''sources'' ''docs''] (Failure ''ECONNRESET'')"
  let ?b = "example_agent [event_payload ''response'' ''Rust ownership is...''] (Failure ''ECONNRESET'')"
  have ra: "all_readable example_parse (Some False) (emitted (?a ''What is Rust ownership?'' [] 1 3))"
    by (simp add: all_readable_def example_agent_emitted example_readable)
  have rb: "all_readable example_parse (Some False) (emitted (?b ''What is Rust ownership?'' [] 1 3))"
    by (simp add: all_readable_def example_agent_emitted example_readable)
  have first: "post_chat_completions example_parse ''req-2'' example_chat_catalog example_embedding_catalog
     ?a (JObject example_request) =
   Completed \<lparr>statusCode = Some 500, headers = [],
     body = [JsonBody \<lparr>err_type = ''internal_server_error'',
              err_message = Msg ''An error has occurred please try again later'',
              err_code = 500\<rparr>],
     ended = True\<rparr>"
    using C2_agent_error_before_and_after_start [OF example_request_valid example_catalogs_select _ _ _,
        where agent = ?a and src = "?a ''What is Rust ownership?'' [] 1 3"
          and parse = example_parse and err = "''ECONNRESET''" and uid = "''req-2''"] ra
    by (auto simp add: example_agent_emitted forwarded_chunks_def example_forwarded_sources)
  have second: "post_chat_completions example_parse ''req-2'' example_chat_catalog example_embedding_catalog
     ?b (JObject example_request) =
   Completed \<lparr>statusCode = Some 200, headers = stream_headers,
     body = [SseData (createDelta ''req-2'' (Some ''perplexica'') 1000
                        (Some (JString ''Rust ownership is...'')) None)],
     ended = True\<rparr>"
    using C2_agent_error_before_and_after_start [OF example_request_valid example_catalogs_select _ _ _,
        where agent = ?b and src = "?b ''What is Rust ownership?'' [] 1 3"
          and parse = example_parse and err = "''ECONNRESET''" and uid = "''req-2''"] rb
    by (auto simp add: example_agent_emitted forwarded_chunks_def example_forwarded_response)
  from first second show ?thesis by simp
qed

text \<open>
  Claim C9. When the event source ends after no event was forwarded, the stream has not
  been started when the end callback runs; the stop chunk starts it, so the response has
  status 200 and the three event-stream headers, and its body is the stop chunk with
  empty content followed by \<^verbatim>\<open>data: [DONE]\<close>.
\<close>

theorem C9_end_without_forwarded_events:
  assumes "validate req_body = Inr json"
    and "select_models cps eps = Inr (Some llm, Some emb)"
    and "agent (content (last (messages json))) (map to_lc (butlast (messages json))) llm emb = src"
    and "all_readable parse (response_raw json) (emitted src)"
    and "forwarded_chunks parse uid (model json) (response_raw json) (emitted src) = []"
    and "terminal src = End now"
  shows "\<exists>x. deliver parse uid (model json) (response_raw json) (emitted src)
               \<lparr>started = False, res = new_response\<rparr> = Inr x
           \<and> \<not> started x \<and> res x = new_response
           \<and> started (on_end uid (model json) now x)
           \<and> post_chat_completions parse uid cps eps agent req_body = Completed (res (on_end uid (model json) now x))
           \<and> res (on_end uid (model json) now x) =
                 \<lparr>statusCode = Some 200,
                  headers = [(''Content-Type'', ''text/event-stream''), (''Cache-Control'', ''no-cache''),
                             (''Connection'', ''keep-alive'')],
                  body = [SseData \<lparr>chunk_id = uid, object = ''chat.completion.chunk'',
                                   created = now div 1000, chunk_model = model json,
                                   choices = [\<lparr>delta_content = Some (JString []), index = 0,
                                               finish_reason = Some ''stop''\<rparr>]\<rparr>,
                          Text ''data: [DONE]\<newline>\<newline>''],
                  ended = True\<rparr>"
proof -
  from deliver_started [OF assms(4), where uid = uid and mo = "model json"] assms(5)
  obtain x where x: "deliver parse uid (model json) (response_raw json) (emitted src)
               \<lparr>started = False, res = new_response\<rparr> = Inr x"
    and st: "\<not> started x" and rx: "res x = new_response"
    by auto
  have xeq: "x = \<lparr>started = False, res = new_response\<rparr>"
    using st rx by (cases x) simp
  have post: "post_chat_completions parse uid cps eps agent req_body =
        Completed (res (on_end uid (model json) now x))"
    using assms(1-3,6) x by (simp add: post_valid stream_bridge_def)
  have fin: "res (on_end uid (model json) now x) =
                 \<lparr>statusCode = Some 200,
                  headers = [(''Content-Type'', ''text/event-stream''), (''Cache-Control'', ''no-cache''),
                             (''Connection'', ''keep-alive'')],
                  body = [SseData \<lparr>chunk_id = uid, object = ''chat.completion.chunk'',
                                   created = now div 1000, chunk_model = model json,
                                   choices = [\<lparr>delta_content = Some (JString []), index = 0,
                                               finish_reason = Some ''stop''\<rparr>]\<rparr>,
                          Text ''data: [DONE]\<newline>\<newline>''],
                  ended = True\<rparr>"
    unfolding xeq
    by (simp add: on_end_def writeDelta_def startStreamIfNeed_def setHeader_def res_write_def
        new_response_def createDelta_def done_marker_def Let_def)
  have st': "started (on_end uid (model json) now x)"
    unfolding xeq by (simp add: on_end_def writeDelta_def startStreamIfNeed_def Let_def)
  from x st rx st' post fin show ?thesis by blast
qed

theorem C9_end_without_forwarded_events_witness:
  "post_chat_completions example_parse ''req-9'' example_chat_catalog example_embedding_catalog
     (example_agent [event_payload ''sources'' ''docs''] (End 1999))
     (JObject example_request) =
   Completed \<lparr>statusCode = Some 200,
      headers = [(''Content-Type'', ''text/event-stream''), (''Cache-Control'', ''no-cache''),
                 (''Connection'', ''keep-alive'')],
      body = [SseData \<lparr>chunk_id = ''req-9'', object = ''chat.completion.chunk'',
                       created = 1, chunk_model = Some ''perplexica'',
                       choices = [\<lparr>delta_content = Some (JString []), index = 0,
                                   finish_reason = Some ''stop''\<rparr>]\<rparr>,
              Text ''data: [DONE]\<newline>\<newline>''],
      ended = True\<rparr>"
proof -
  let ?a = "example_agent [event_payload ''sources'' ''docs''] (End 1999)"
  have ra: "all_readable example_parse (Some False) (emitted (?a ''What is Rust ownership?'' [] 1 3))"
    by (simp add: all_readable_def example_agent_emitted example_readable)
  have fa: "forwarded_chunks example_parse ''req-9'' (Some ''perplexica'') (Some False)
              (emitted (?a ''What is Rust ownership?'' [] 1 3)) = []"
    by (simp add: example_agent_emitted forwarded_chunks_def example_forwarded_sources)
  show ?thesis
    using C9_end_without_forwarded_events [OF example_request_valid example_catalogs_select _ _ _ _,
        where agent = ?a and src = "?a ''What is Rust ownership?'' [] 1 3"
          and parse = example_parse and now = 1999 and uid = "''req-9''"] ra fa
    by (auto simp add: example_agent_emitted)
qed

section \<open>Forwarding of agent events\<close>





lemma example_kind_data:
  "kind_of example_parse (event_payload ''response'' ''Rust ownership is...'') = Some (JString ''response'')"
  "data_of example_parse (event_payload ''response'' ''Rust ownership is...'') = Some (JString ''Rust ownership is...'')"
  "kind_of example_parse (event_payload ''sources'' ''docs'') = Some (JString ''sources'')"
  by (simp_all add: kind_of_def data_of_def example_parse_response example_parse_sources event_value_def)


lemma deliver_append:
  "deliver parse uid mo raw (evs @ evs') x =
     (case deliver parse uid mo raw evs x of
        Inl e \<Rightarrow> Inl e
      | Inr x' \<Rightarrow> deliver parse uid mo raw evs' x')"
  by (induction evs arbitrary: x) (simp_all split: sum.splits)

lemma example_parse_null: "example_parse ''null'' = Some JNull"
  by (simp add: example_parse_def event_payload_def quoted_def)

text \<open>
  Claim C10, as amended. Without \<^verbatim>\<open>response_raw\<close>, the data callback throws the
  \<^verbatim>\<open>SyntaxError\<close> of \<^verbatim>\<open>JSON.parse\<close> on a payload that is not JSON: the event is not
  dropped, and the request stops there with the response as it was, not ended. An event of
  another kind is dropped when its payload parses to a JSON value other than \<^verbatim>\<open>null\<close>; on
  the payload \<^verbatim>\<open>null\<close> the callback throws a \<^verbatim>\<open>TypeError\<close>.
\<close>

theorem C10_unparsable_payload_throws:
  assumes "raw \<noteq> Some True" and "parse data = None"
  shows "on_data parse uid mo raw now data x = Inl SyntaxError
         \<and> (\<forall>earlier later fin. all_readable parse raw earlier \<longrightarrow>
               stream_bridge parse uid mo raw \<lparr>emitted = earlier @ (now, data) # later, terminal = fin\<rparr> =
                 Threw SyntaxError
                   (res (append_chunks (forwarded_chunks parse uid mo raw earlier)
                           \<lparr>started = False, res = new_response\<rparr>)))
         \<and> (\<forall>d t v. parse d = Some v \<and> v \<noteq> JNull
                 \<and> kind_of parse d \<noteq> Some (JString ''response'') \<longrightarrow>
               on_data parse uid mo raw t d x = Inr x)
         \<and> (\<forall>d t. parse d = Some JNull \<longrightarrow> on_data parse uid mo raw t d x = Inl TypeError)"
proof (intro conjI allI impI)
  show thrown: "on_data parse uid mo raw now data x = Inl SyntaxError" for x
    using assms by (simp add: on_data_def)
  show "stream_bridge parse uid mo raw \<lparr>emitted = earlier @ (now, data) # later, terminal = fin\<rparr> =
          Threw SyntaxError
            (res (append_chunks (forwarded_chunks parse uid mo raw earlier)
                    \<lparr>started = False, res = new_response\<rparr>))"
    if "all_readable parse raw earlier" for earlier later and fin :: "'a signal"
    using that by (simp add: stream_bridge_def deliver_append deliver_forwarded thrown)
  show "on_data parse uid mo raw t d x = Inr x"
    if "parse d = Some v \<and> v \<noteq> JNull \<and> kind_of parse d \<noteq> Some (JString ''response'')" for d t v
  proof -
    from that have "raw = Some True \<or> readable parse d" by (simp add: readable_def)
    from on_data_forwarded [OF this] that assms(1) show ?thesis
      by (simp add: forwarded_def append_chunks_Nil)
  qed
  show "on_data parse uid mo raw t d x = Inl TypeError" if "parse d = Some JNull" for d t
    using that assms(1) by (simp add: on_data_def)
qed

text \<open>
  Claim C10 as stated fails: the payload \<^verbatim>\<open>null\<close> parses as JSON and is not of kind
  \<^verbatim>\<open>response\<close>, yet it is not dropped: reading \<^verbatim>\<open>parsedData.type\<close> throws.
\<close>

theorem C10_null_payload_counterexample:
  "example_parse ''null'' = Some JNull
   \<and> kind_of example_parse ''null'' \<noteq> Some (JString ''response'')
   \<and> on_data example_parse ''req-10'' (Some ''perplexica'') (Some False) 1500 ''null''
        \<lparr>started = False, res = new_response\<rparr> = Inl TypeError
   \<and> stream_bridge example_parse ''req-10'' (Some ''perplexica'') (Some False)
        \<lparr>emitted = [(1500, ''null'')], terminal = End 3000 :: string signal\<rparr> =
      Threw TypeError new_response"
  by (simp add: example_parse_null kind_of_def on_data_def stream_bridge_def)

theorem C10_unparsable_payload_throws_witness:
  "on_data example_parse ''req-10'' (Some ''perplexica'') (Some False) 2000 ''<html>''
     \<lparr>started = False, res = new_response\<rparr> = Inl SyntaxError
   \<and> stream_bridge example_parse ''req-10'' (Some ''perplexica'') (Some False)
       \<lparr>emitted = [(1000, event_payload ''response'' ''Rust ownership is...''), (2000, ''<html>'')],
        terminal = End 3000 :: string signal\<rparr> =
     Threw SyntaxError
       \<lparr>statusCode = Some 200, headers = stream_headers,
        body = [SseData (createDelta ''req-10'' (Some ''perplexica'') 1000
                           (Some (JString ''Rust ownership is...'')) None)],
        ended = False\<rparr>
   \<and> on_data example_parse ''req-10'' (Some ''perplexica'') (Some False) 1500
       (event_payload ''sources'' ''docs'') \<lparr>started = False, res = new_response\<rparr> =
     Inr \<lparr>started = False, res = new_response\<rparr>
   \<and> on_data example_parse ''req-10'' (Some ''perplexica'') (Some False) 1500 ''null''
       \<lparr>started = False, res = new_response\<rparr> = Inl TypeError"
proof -
  have raw: "Some False \<noteq> Some True" by simp
  have r1: "all_readable example_parse (Some False)
              [(1000, event_payload ''response'' ''Rust ownership is...'')]"
    by (simp add: all_readable_def example_readable)
  have fc: "forwarded_chunks example_parse ''req-10'' (Some ''perplexica'') (Some False)
              [(1000, event_payload ''response'' ''Rust ownership is...'')] =
            [createDelta ''req-10'' (Some ''perplexica'') 1000 (Some (JString ''Rust ownership is...'')) None]"
    by (simp add: forwarded_chunks_def example_forwarded_response)
  note inst = C10_unparsable_payload_throws [where parse = example_parse and data = "''<html>''"
      and raw = "Some False" and uid = "''req-10''" and mo = "Some ''perplexica''" and now = 2000
      and x = "\<lparr>started = False, res = new_response\<rparr>", OF raw example_parse_html]
  from inst have a: "on_data example_parse ''req-10'' (Some ''perplexica'') (Some False) 2000 ''<html>''
     \<lparr>started = False, res = new_response\<rparr> = Inl SyntaxError"
    by blast
  from inst r1 have "stream_bridge example_parse ''req-10'' (Some ''perplexica'') (Some False)
       \<lparr>emitted = [(1000, event_payload ''response'' ''Rust ownership is...'')] @ (2000, ''<html>'') # [],
        terminal = End 3000 :: string signal\<rparr> =
     Threw SyntaxError
       (res (append_chunks (forwarded_chunks example_parse ''req-10'' (Some ''perplexica'') (Some False)
               [(1000, event_payload ''response'' ''Rust ownership is...'')])
               \<lparr>started = False, res = new_response\<rparr>))"
    by blast
  then have b: "stream_bridge example_parse ''req-10'' (Some ''perplexica'') (Some False)
       \<lparr>emitted = [(1000, event_payload ''response'' ''Rust ownership is...''), (2000, ''<html>'')],
        terminal = End 3000 :: string signal\<rparr> =
     Threw SyntaxError
       \<lparr>statusCode = Some 200, headers = stream_headers,
        body = [SseData (createDelta ''req-10'' (Some ''perplexica'') 1000
                           (Some (JString ''Rust ownership is...'')) None)],
        ended = False\<rparr>"
    by (simp add: fc append_chunks_fresh)
  have k: "example_parse (event_payload ''sources'' ''docs'') = Some (event_value ''sources'' ''docs'')
      \<and> event_value ''sources'' ''docs'' \<noteq> JNull
      \<and> kind_of example_parse (event_payload ''sources'' ''docs'') \<noteq> Some (JString ''response'')"
    by (simp add: example_kind_data example_parse_sources event_value_def)
  from inst k
  have c: "on_data example_parse ''req-10'' (Some ''perplexica'') (Some False) 1500
       (event_payload ''sources'' ''docs'') \<lparr>started = False, res = new_response\<rparr> =
     Inr \<lparr>started = False, res = new_response\<rparr>"
    by blast
  from inst example_parse_null
  have d: "on_data example_parse ''req-10'' (Some ''perplexica'') (Some False) 1500 ''null''
       \<lparr>started = False, res = new_response\<rparr> = Inl TypeError"
    by blast
  from a b c d show ?thesis by blast
qed

text \<open>The payload \<^verbatim>\<open>null\<close> is JSON, and reading its \<^verbatim>\<open>type\<close> throws as well.\<close>

lemma on_data_null_payload:
  assumes "raw \<noteq> Some True" and "parse data = Some JNull"
  shows "on_data parse uid mo raw now data x = Inl TypeError"
  using assms by (simp add: on_data_def)

section \<open>Validation of the request\<close>

lemma post_invalid:
  assumes "validate req_body = Inl err"
  shows "post_chat_completions parse uid cps eps agent req_body =
         Completed \<lparr>statusCode = Some 400, headers = [],
           body = [JsonBody \<lparr>err_type = ''invalid_request_error'', err_message = message_of err,
                    err_code = 400\<rparr>],
           ended = True\<rparr>"
  using assms by (simp add: post_chat_completions_def throwError_def new_response_def)

lemma schema_messages:
  assumes "requestParamsSchema (JObject ps) = Some json"
  shows "required z_messages (map_of ps ''messages'') = Some (messages json)"
  using assms by (auto split: Option.bind_splits)

lemma those_map_last:
  assumes "those (map f xs) = Some ys" and "xs \<noteq> []"
  shows "f (last xs) = Some (last ys) \<and> ys \<noteq> []"
  using assms
proof (induction xs arbitrary: ys)
  case Nil
  then show ?case by simp
next
  case (Cons x xs)
  then show ?case
    by (cases xs) (auto split: option.splits)
qed

lemma those_map_all:
  assumes "those (map f xs) = Some ys"
  shows "\<forall>x\<in>set xs. f x \<noteq> None"
  using assms by (induction xs arbitrary: ys) (auto split: option.splits)

lemma z_message_fields:
  assumes "z_message v = Some m"
  shows "get_property v ''role'' = Inr (Some (JString ''user'')) \<longleftrightarrow> role m = User"
    and "get_property v ''content'' = Inr (Some (JString (content m)))"
proof -
  from assms obtain ps where v: "v = JObject ps"
    by (cases v) simp_all
  from assms v obtain rv cv where rv: "map_of ps ''role'' = Some rv" "z_role rv = Some (role m)"
    and cv: "map_of ps ''content'' = Some cv" "z_string cv = Some (content m)"
    by (auto simp: required_def split: option.splits)
  from rv(2) have "rv = JString ''user'' \<longleftrightarrow> role m = User"
    by (auto simp: z_role_def split: if_splits)
  with v rv(1) show "get_property v ''role'' = Inr (Some (JString ''user'')) \<longleftrightarrow> role m = User"
    by simp
  from cv(2) have "cv = JString (content m)"
    by (cases cv) simp_all
  with v cv(1) show "get_property v ''content'' = Inr (Some (JString (content m)))"
    by simp
qed

lemma z_message_shape:
  "z_message v \<noteq> None \<longleftrightarrow>
     (\<exists>ps r c. v = JObject ps \<and> map_of ps ''role'' = Some (JString r)
        \<and> r \<in> {''user'', ''assistant'', ''system''} \<and> map_of ps ''content'' = Some (JString c))"
proof (cases v)
  case (JObject ps)
  show ?thesis
  proof (cases "map_of ps ''role''")
    case None
    with JObject show ?thesis by (simp add: required_def)
  next
    case (Some rv)
    show ?thesis
    proof (cases "map_of ps ''content''")
      case None
      with JObject Some show ?thesis by (simp add: required_def split: option.splits)
    next
      case c: (Some cv)
      with JObject Some show ?thesis
        by (cases cv; cases rv) (auto simp: required_def z_role_def split: option.splits)
    qed
  qed
qed simp_all

lemma validate_last_message:
  assumes "map_of ps ''messages'' = Some (JArray ms)"
    and "ms = [] \<or> get_property (last ms) ''role'' \<noteq> Inr (Some (JString ''user''))
         \<or> get_property (last ms) ''content'' = Inr (Some (JString []))"
  shows "\<exists>err. validate (JObject ps) = Inl err"
proof (cases "requestParamsSchema (JObject ps)")
  case None
  then show ?thesis by (simp add: validate_def)
next
  case (Some json)
  from schema_messages [OF Some] assms(1)
  have zm: "z_messages (JArray ms) = Some (messages json)"
    by (simp add: required_def)
  then have th: "those (map z_message ms) = Some (messages json)" and ne: "messages json \<noteq> []"
    by (auto split: option.splits if_splits)
  from th ne have "ms \<noteq> []" by auto
  from those_map_last [OF th this]
  have lm: "z_message (last ms) = Some (last (messages json))" by simp
  from assms(2) \<open>ms \<noteq> []\<close> z_message_fields [OF lm]
  have "role (last (messages json)) \<noteq> User \<or> content (last (messages json)) = []"
    by auto
  with Some show ?thesis
    by (auto simp: validate_def)
qed

text \<open>
  Claim C4. A request whose \<^verbatim>\<open>messages\<close> array is empty, or whose last message has a role
  other than \<^verbatim>\<open>user\<close>, or whose last message has empty content, is answered with status
  400 and error type \<^verbatim>\<open>invalid_request_error\<close>; no header is set and the JSON error is
  the only thing written, whatever the catalogs and the agent are.
\<close>

theorem C4_last_message_not_user_is_400:
  assumes "map_of ps ''messages'' = Some (JArray ms)"
    and "ms = [] \<or> get_property (last ms) ''role'' \<noteq> Inr (Some (JString ''user''))
         \<or> get_property (last ms) ''content'' = Inr (Some (JString []))"
  shows "\<exists>msg. post_chat_completions parse uid cps eps agent (JObject ps) =
           Completed \<lparr>statusCode = Some 400, headers = [],
             body = [JsonBody \<lparr>err_type = ''invalid_request_error'', err_message = msg,
                      err_code = 400\<rparr>],
             ended = True\<rparr>"
proof -
  from validate_last_message [OF assms] obtain err where "validate (JObject ps) = Inl err" ..
  then show ?thesis
    by (simp add: post_invalid)
qed

theorem C4_last_message_not_user_is_400_witness:
  "\<exists>msg. post_chat_completions example_parse ''req-4'' example_chat_catalog example_embedding_catalog
      (example_agent [] (End 1000))
      (JObject [(''messages'', JArray [user_message ''hello'', system_message ''be brief''])]) =
     Completed \<lparr>statusCode = Some 400, headers = [],
       body = [JsonBody \<lparr>err_type = ''invalid_request_error'', err_message = msg, err_code = 400\<rparr>],
       ended = True\<rparr>"
proof -
  have m: "map_of [(''messages'', JArray [user_message ''hello'', system_message ''be brief''])] ''messages''
           = Some (JArray [user_message ''hello'', system_message ''be brief''])"
    by simp
  have l: "[user_message ''hello'', system_message ''be brief''] = []
         \<or> get_property (last [user_message ''hello'', system_message ''be brief'']) ''role''
              \<noteq> Inr (Some (JString ''user''))
         \<or> get_property (last [user_message ''hello'', system_message ''be brief'']) ''content''
              = Inr (Some (JString []))"
    by (simp add: system_message_def)
  show ?thesis
    using C4_last_message_not_user_is_400 [OF m l, where parse = example_parse and uid = "''req-4''"
        and cps = example_chat_catalog and eps = example_embedding_catalog
        and agent = "example_agent [] (End 1000)"]
    by simp
qed

lemma schema_accepts:
  assumes "required z_messages (map_of ps ''messages'') = Some msgs" and "other_fields ps"
  shows "\<exists>json. requestParamsSchema (JObject ps) = Some json \<and> messages json = msgs"
  using assms by (auto simp: other_fields_def)

lemma those_map_Some:
  assumes "\<forall>x\<in>set xs. f x \<noteq> None"
  shows "\<exists>ys. those (map f xs) = Some ys"
  using assms by (induction xs) auto

lemma validate_accepts:
  assumes "map_of ps ''messages'' = Some (JArray ms)"
    and "other_fields ps"
    and "\<forall>m\<in>set ms. z_message m \<noteq> None"
    and "ms \<noteq> []"
    and "get_property (last ms) ''role'' = Inr (Some (JString ''user''))"
    and "get_property (last ms) ''content'' \<noteq> Inr (Some (JString []))"
  shows "\<exists>json. validate (JObject ps) = Inr json \<and> those (map z_message ms) = Some (messages json)"
proof -
  from those_map_Some [OF assms(3)] obtain msgs where th: "those (map z_message ms) = Some msgs" ..
  from those_map_last [OF th assms(4)]
  have lm: "z_message (last ms) = Some (last msgs)" and ne: "msgs \<noteq> []" by simp_all
  from th ne assms(1) have "required z_messages (map_of ps ''messages'') = Some msgs"
    by (simp add: required_def)
  from schema_accepts [OF this assms(2)] obtain json
    where s: "requestParamsSchema (JObject ps) = Some json" and m: "messages json = msgs" by blast
  from z_message_fields [OF lm] assms(5,6)
  have "role (last msgs) = User" and "content (last msgs) \<noteq> []" by auto
  with s m ne th show ?thesis
    by (simp add: validate_def)
qed

lemma on_data_written:
  assumes "on_data parse uid mo raw now data x = Inr x'"
  shows "x' = x \<or> (\<exists>c. x' = writeDelta uid mo now c None x)"
  using assms
  by (auto simp: on_data_def split: if_splits option.splits sum.splits)

lemma writeDelta_not_rejected:
  assumes "\<not> rejected_as_invalid (res x)"
  shows "\<not> rejected_as_invalid (res (writeDelta uid mo now c fr x))"
  using assms
  by (auto simp: rejected_as_invalid_def writeDelta_def startStreamIfNeed_def setHeader_def
      res_write_def Let_def)

lemma deliver_not_rejected:
  assumes "\<not> rejected_as_invalid (res x)"
    and "deliver parse uid mo raw evs x = Inr x' \<or> deliver parse uid mo raw evs x = Inl (e, x')"
  shows "\<not> rejected_as_invalid (res x')"
  using assms
proof (induction evs arbitrary: x)
  case Nil
  then show ?case by simp
next
  case (Cons ev evs)
  show ?case
  proof (cases "on_data parse uid mo raw (fst ev) (snd ev) x")
    case (Inl err)
    with Cons.prems show ?thesis by simp
  next
    case (Inr y)
    from on_data_written [OF Inr] Cons.prems(1) have "\<not> rejected_as_invalid (res y)"
      by (auto simp: writeDelta_not_rejected)
    moreover from Cons.prems(2) Inr
    have "deliver parse uid mo raw evs y = Inr x' \<or> deliver parse uid mo raw evs y = Inl (e, x')"
      by simp
    ultimately show ?thesis by (rule Cons.IH)
  qed
qed

lemma on_end_not_rejected:
  assumes "\<not> rejected_as_invalid (res x)"
  shows "\<not> rejected_as_invalid (res (on_end uid mo now x))"
  using writeDelta_not_rejected [OF assms, of uid mo now "Some (JString [])" "Some ''stop''"]
  by (simp add: on_end_def Let_def rejected_as_invalid_def res_write_def)

lemma on_error_not_rejected:
  assumes "\<not> rejected_as_invalid (res x)"
  shows "\<not> rejected_as_invalid (res (on_error err x))"
  using assms by (simp add: on_error_def rejected_as_invalid_def throwError_def)

lemma stream_bridge_not_rejected:
  "\<not> rejected_as_invalid (response_of (stream_bridge parse uid mo raw src))"
proof -
  let ?x0 = "\<lparr>started = False, res = new_response\<rparr>"
  have init: "\<not> rejected_as_invalid (res ?x0)"
    by (simp add: rejected_as_invalid_def new_response_def)
  show ?thesis
  proof (cases "deliver parse uid mo raw (emitted src) ?x0")
    case (Inl ex)
    obtain e x' where ex: "ex = (e, x')" by (cases ex)
    with Inl have "deliver parse uid mo raw (emitted src) ?x0 = Inr x'
        \<or> deliver parse uid mo raw (emitted src) ?x0 = Inl (e, x')" by simp
    from deliver_not_rejected [OF init this] Inl ex show ?thesis
      by (simp add: stream_bridge_def)
  next
    case (Inr x')
    then have "deliver parse uid mo raw (emitted src) ?x0 = Inr x'
        \<or> deliver parse uid mo raw (emitted src) ?x0 = Inl (undefined, x')" by simp
    from deliver_not_rejected [OF init this] have ok: "\<not> rejected_as_invalid (res x')" .
    show ?thesis
    proof (cases "terminal src")
      case (End now)
      with Inr on_end_not_rejected [OF ok] show ?thesis by (simp add: stream_bridge_def)
    next
      case (Failure err)
      with Inr on_error_not_rejected [OF ok] show ?thesis by (simp add: stream_bridge_def)
    qed
  qed
qed

lemma post_not_rejected:
  assumes "validate req_body = Inr json"
  shows "\<not> rejected_as_invalid (response_of (post_chat_completions parse uid cps eps agent req_body))"
proof -
  have init: "\<not> rejected_as_invalid new_response"
    by (simp add: rejected_as_invalid_def new_response_def)
  have err: "\<not> rejected_as_invalid (throwError new_response 500 ''internal_server_error'' m)" for m
    by (simp add: rejected_as_invalid_def throwError_def new_response_def)
  show ?thesis
    using assms init err
    by (simp add: post_chat_completions_def stream_bridge_not_rejected
        split: sum.splits prod.splits option.splits)
qed

text \<open>
  Claim C5, as amended. Each element of \<^verbatim>\<open>messages\<close> must be an object with a role among
  \<^verbatim>\<open>user\<close>, \<^verbatim>\<open>assistant\<close>, \<^verbatim>\<open>system\<close> and a string content, which may be empty. A
  request with an element that is not, or whose last message has empty content, is
  answered with status 400 whatever the catalogs and the agent are. A request whose
  elements all are, whose last message is from the user with content that is not empty,
  and whose other fields pass their schemas, passes validation with all its messages and is
  not answered as invalid, whatever content the messages before the last have.
\<close>

theorem C5_rejection_and_acceptance_of_messages:
  assumes "map_of ps ''messages'' = Some (JArray ms)"
  shows "((\<exists>m\<in>set ms. z_message m = None)
            \<or> (ms \<noteq> [] \<and> get_property (last ms) ''content'' = Inr (Some (JString [])))
          \<longrightarrow> (\<exists>msg. post_chat_completions parse uid cps eps agent (JObject ps) =
                 Completed \<lparr>statusCode = Some 400, headers = [],
                   body = [JsonBody \<lparr>err_type = ''invalid_request_error'', err_message = msg,
                            err_code = 400\<rparr>],
                   ended = True\<rparr>))
         \<and> (other_fields ps \<and> (\<forall>m\<in>set ms. z_message m \<noteq> None) \<and> ms \<noteq> []
              \<and> get_property (last ms) ''role'' = Inr (Some (JString ''user''))
              \<and> get_property (last ms) ''content'' \<noteq> Inr (Some (JString []))
          \<longrightarrow> (\<exists>json. validate (JObject ps) = Inr json
                 \<and> those (map z_message ms) = Some (messages json)
                 \<and> \<not> rejected_as_invalid
                       (response_of (post_chat_completions parse uid cps eps agent (JObject ps)))))
         \<and> (\<forall>m. z_message m \<noteq> None \<longleftrightarrow>
               (\<exists>qs r c. m = JObject qs \<and> map_of qs ''role'' = Some (JString r)
                  \<and> r \<in> {''user'', ''assistant'', ''system''}
                  \<and> map_of qs ''content'' = Some (JString c)))"
proof (intro conjI impI)
  assume bad: "(\<exists>m\<in>set ms. z_message m = None)
         \<or> (ms \<noteq> [] \<and> get_property (last ms) ''content'' = Inr (Some (JString [])))"
  have "\<exists>err. validate (JObject ps) = Inl err"
  proof (cases "\<exists>m\<in>set ms. z_message m = None")
    case True
    have "requestParamsSchema (JObject ps) = None"
    proof (rule ccontr)
      assume "requestParamsSchema (JObject ps) \<noteq> None"
      then obtain json where "requestParamsSchema (JObject ps) = Some json" by auto
      from schema_messages [OF this] assms
      have "z_messages (JArray ms) = Some (messages json)" by (simp add: required_def)
      then have "those (map z_message ms) = Some (messages json)"
        by (auto split: option.splits if_splits)
      from those_map_all [OF this] True show False by blast
    qed
    then show ?thesis by (simp add: validate_def)
  next
    case False
    with bad have "get_property (last ms) ''content'' = Inr (Some (JString []))" by blast
    with validate_last_message [OF assms] show ?thesis by blast
  qed
  then obtain err where "validate (JObject ps) = Inl err" ..
  then show "\<exists>msg. post_chat_completions parse uid cps eps agent (JObject ps) =
                 Completed \<lparr>statusCode = Some 400, headers = [],
                   body = [JsonBody \<lparr>err_type = ''invalid_request_error'', err_message = msg,
                            err_code = 400\<rparr>],
                   ended = True\<rparr>"
    by (simp add: post_invalid)
next
  assume good: "other_fields ps \<and> (\<forall>m\<in>set ms. z_message m \<noteq> None) \<and> ms \<noteq> []
              \<and> get_property (last ms) ''role'' = Inr (Some (JString ''user''))
              \<and> get_property (last ms) ''content'' \<noteq> Inr (Some (JString []))"
  then obtain json where v: "validate (JObject ps) = Inr json"
    and m: "those (map z_message ms) = Some (messages json)"
    using validate_accepts [OF assms] by blast
  from post_not_rejected [OF v] v m
  show "\<exists>json. validate (JObject ps) = Inr json
                 \<and> those (map z_message ms) = Some (messages json)
                 \<and> \<not> rejected_as_invalid
                       (response_of (post_chat_completions parse uid cps eps agent (JObject ps)))"
    by blast
next
  show "\<forall>m. z_message m \<noteq> None \<longleftrightarrow>
               (\<exists>qs r c. m = JObject qs \<and> map_of qs ''role'' = Some (JString r)
                  \<and> r \<in> {''user'', ''assistant'', ''system''}
                  \<and> map_of qs ''content'' = Some (JString c))"
    using z_message_shape by blast
qed

theorem C5_rejection_and_acceptance_of_messages_witness:
  "(\<exists>msg. post_chat_completions example_parse ''req-5'' example_chat_catalog example_embedding_catalog
      (example_agent [] (End 1000))
      (JObject [(''messages'', JArray [system_message ''be brief'', user_message []])]) =
     Completed \<lparr>statusCode = Some 400, headers = [],
       body = [JsonBody \<lparr>err_type = ''invalid_request_error'', err_message = msg, err_code = 400\<rparr>],
       ended = True\<rparr>)
   \<and>
   (\<exists>json. validate (JObject [(''messages'', JArray [system_message [], assistant_message [],
                                                   user_message ''hello''])]) = Inr json
      \<and> messages json = [\<lparr>role = System, content = []\<rparr>, \<lparr>role = Assistant, content = []\<rparr>,
                          \<lparr>role = User, content = ''hello''\<rparr>]
      \<and> \<not> rejected_as_invalid (response_of
           (post_chat_completions example_parse ''req-5'' example_chat_catalog example_embedding_catalog
              (example_agent [] (End 1000))
              (JObject [(''messages'', JArray [system_message [], assistant_message [],
                                               user_message ''hello''])]))))"
proof -
  let ?bad = "[system_message ''be brief'', user_message []]"
  let ?good = "[system_message [], assistant_message [], user_message ''hello'']"
  have m1: "map_of [(''messages'', JArray ?bad)] ''messages'' = Some (JArray ?bad)"
    by simp
  have l1: "(\<exists>m\<in>set ?bad. z_message m = None)
         \<or> (?bad \<noteq> [] \<and> get_property (last ?bad) ''content'' = Inr (Some (JString [])))"
    by (simp add: user_message_def)
  have m2: "map_of [(''messages'', JArray ?good)] ''messages'' = Some (JArray ?good)"
    by simp
  have zs: "map z_message ?good =
      [Some \<lparr>role = System, content = []\<rparr>, Some \<lparr>role = Assistant, content = []\<rparr>,
       Some \<lparr>role = User, content = ''hello''\<rparr>]"
    by (simp add: system_message_def assistant_message_def user_message_def required_def z_role_def)
  have l2: "other_fields [(''messages'', JArray ?good)] \<and> (\<forall>m\<in>set ?good. z_message m \<noteq> None)
              \<and> ?good \<noteq> []
              \<and> get_property (last ?good) ''role'' = Inr (Some (JString ''user''))
              \<and> get_property (last ?good) ''content'' \<noteq> Inr (Some (JString []))"
    using zs
    by (simp add: other_fields_def nullable_default_def optional_nullable_def user_message_def)
  note bad = C5_rejection_and_acceptance_of_messages [OF m1, where parse = example_parse
        and uid = "''req-5''" and cps = example_chat_catalog and eps = example_embedding_catalog
        and agent = "example_agent [] (End 1000)", THEN conjunct1, rule_format, OF l1]
  note good = C5_rejection_and_acceptance_of_messages [OF m2, where parse = example_parse
        and uid = "''req-5''" and cps = example_chat_catalog and eps = example_embedding_catalog
        and agent = "example_agent [] (End 1000)", THEN conjunct2, THEN conjunct1, rule_format, OF l2]
  from good zs have good': "\<exists>json. validate (JObject [(''messages'', JArray ?good)]) = Inr json
      \<and> messages json = [\<lparr>role = System, content = []\<rparr>, \<lparr>role = Assistant, content = []\<rparr>,
                          \<lparr>role = User, content = ''hello''\<rparr>]
      \<and> \<not> rejected_as_invalid (response_of
           (post_chat_completions example_parse ''req-5'' example_chat_catalog example_embedding_catalog
              (example_agent [] (End 1000)) (JObject [(''messages'', JArray ?good)])))"
    by auto
  from bad good' show ?thesis by (rule conjI)
qed

text \<open>
  Claim C5 as stated fails: a request whose first message has empty content passes
  validation and is answered with the event stream.
\<close>

lemma empty_system_request_valid:
  "validate (JObject [(''messages'', JArray [system_message [], user_message ''hello''])]) =
     Inr \<lparr>messages = [\<lparr>role = System, content = []\<rparr>, \<lparr>role = User, content = ''hello''\<rparr>],
          model = Some ''perplexica'', stream = Some False, temperature = Some 1,
          frequency_penalty = Undefined, max_tokens = Undefined, presence_penalty = Undefined,
          top_p = Undefined, stop = Undefined, response_raw = Some False\<rparr>"
  by (simp add: validate_def user_message_def system_message_def required_def z_role_def
      nullable_default_def optional_nullable_def)

theorem C5_empty_content_accepted_counterexample:
  "post_chat_completions example_parse ''req-5'' example_chat_catalog example_embedding_catalog
      (example_agent [] (End 1000))
      (JObject [(''messages'', JArray [system_message [], user_message ''hello''])]) =
   Completed \<lparr>statusCode = Some 200, headers = stream_headers,
     body = [SseData (stop_chunk ''req-5'' (Some ''perplexica'') 1000), Text done_marker],
     ended = True\<rparr>"
  by (simp add: post_valid [OF empty_system_request_valid example_catalogs_select]
      stream_bridge_end all_readable_def forwarded_chunks_def example_agent_emitted)

section \<open>The stream flag\<close>












section \<open>Model selection\<close>

lemma empty_catalog_throws: "first_model [] = Inl TypeError"
  by (simp add: first_model_def first_key_def lookup_def)

lemma first_provider_without_models:
  assumes "validate req_body = Inr json"
    and "select_models cps eps = Inr (l, e)" and "l = None \<or> e = None"
  shows "post_chat_completions parse uid cps eps agent req_body =
         Completed \<lparr>statusCode = Some 500, headers = [],
           body = [JsonBody \<lparr>err_type = ''internal_server_error'',
                    err_message = Msg ''Model or Embedding not found'', err_code = 500\<rparr>],
           ended = True\<rparr>"
  using assms
  by (auto simp add: post_chat_completions_def throwError_def new_response_def split: option.splits)

lemma provider_without_models_select:
  "select_models ((p, []) # cps) ((q, ms) # eps) = Inr (None, handle_of ((q, ms) # eps) (Some q) (first_key ms))"
  by (simp add: select_models_def first_model_def first_key_def lookup_def handle_of_def)

text \<open>
  Claim C3. With an empty chat catalog or an empty embedding catalog,
  \<^verbatim>\<open>Object.keys(providers[undefined])\<close> throws before the test of \<^verbatim>\<open>llm\<close> and
  \<^verbatim>\<open>embeddings\<close> is reached: the handler writes no response, where the claim has the 500
  error. With a first provider that has no model the handler does answer with it.
\<close>

theorem C3_empty_catalog_throws_before_the_check:
  "post_chat_completions example_parse ''req-3'' ([] :: nat catalog) example_embedding_catalog
     (example_agent [] (End 1000)) (JObject example_request) = Threw TypeError new_response
   \<and> post_chat_completions example_parse ''req-3'' example_chat_catalog ([] :: nat catalog)
     (example_agent [] (End 1000)) (JObject example_request) = Threw TypeError new_response
   \<and> post_chat_completions example_parse ''req-3'' [(''custom_openai'', [])] example_embedding_catalog
     (example_agent [] (End 1000)) (JObject example_request) =
       Completed \<lparr>statusCode = Some 500, headers = [],
           body = [JsonBody \<lparr>err_type = ''internal_server_error'',
                    err_message = Msg ''Model or Embedding not found'', err_code = 500\<rparr>],
           ended = True\<rparr>"
  by (simp add: post_chat_completions_def example_request_valid select_models_def first_model_def
      first_key_def lookup_def handle_of_def example_chat_catalog_def example_embedding_catalog_def
      throwError_def new_response_def)

section \<open>The fields of a chunk\<close>













end
